theory Spec2Isabelle
  imports Complex_Main "HOL-Library.Monad_Syntax"
begin

section \<open>Request data\<close>

text \<open>
  The service of \<^verbatim>\<open>index.js\<close> is an Express application over Mongoose models, with
  Joi schemas for the request bodies. A request body is what \<^verbatim>\<open>express.json()\<close> hands
  to a handler: a parsed JSON value (an object or an array; the empty object when the
  request has no body). Numbers are kept by their exact value. The members of an object
  are listed in the order in which JavaScript enumerates its keys.
\<close>

datatype json =
    JNull
  | JBool bool
  | JNum rat
  | JStr string
  | JArr "json list"
  | JObj "(string \<times> json) list"

text \<open>\<^verbatim>\<open>req.body.k\<close>: the member, or \<open>None\<close> for \<^verbatim>\<open>undefined\<close>.\<close>

fun get_prop :: "json \<Rightarrow> string \<Rightarrow> json option" where
  "get_prop (JObj kvs) k = map_of kvs k"
| "get_prop _ k = None"

text \<open>
  A query parameter (\<^verbatim>\<open>req.query.k\<close>) is absent or one text value; repeated and nested
  parameters, which the query parser turns into arrays and objects, are not modelled.
\<close>

type_synonym param = "string option"

section \<open>The libraries the handlers call\<close>

text \<open>
  An ObjectId is identified with its canonical text (what \<^verbatim>\<open>toString()\<close> returns), so
  \<^verbatim>\<open>post.userID.toString()\<close> is the stored value itself.
\<close>

type_synonym oid = string

text \<open>What Mongoose's number cast makes of a text: a number, an infinity, or
  \<^verbatim>\<open>null\<close> (for the empty text).\<close>

datatype bound = Num rat | PosInf | NegInf | Null

text \<open>
  The parts of Joi, Mongoose and the regular-expression engine whose code is not in the
  repository are parameters of the model:
  \<^item> \<open>castObjectId\<close>: Mongoose's cast of a text to an ObjectId; \<open>None\<close> is the
    \<^verbatim>\<open>CastError\<close> that a query or a document raises;
  \<^item> \<open>isEmail\<close>: the address syntax that \<^verbatim>\<open>Joi.string().email()\<close> accepts;
  \<^item> \<open>joiNumber\<close>: the number Joi converts a text to (\<^verbatim>\<open>convert\<close> is on by default);
    \<open>None\<close> when the text is not a number for Joi;
  \<^item> \<open>castNumber\<close>: Mongoose's cast of a text to a Number; \<open>None\<close> is a
    \<^verbatim>\<open>CastError\<close>;
  \<^item> \<open>castDate\<close>: Mongoose's cast of a value to a Date (milliseconds since the epoch);
    \<open>None\<close> is a \<^verbatim>\<open>CastError\<close>;
  \<^item> \<open>regExp\<close>: \<^verbatim>\<open>new RegExp(source, 'i')\<close> as the \<^verbatim>\<open>$regex\<close> operator applies it to a
    text; \<open>None\<close> when the constructor throws a \<^verbatim>\<open>SyntaxError\<close>.
\<close>

record lib =
  castObjectId :: "string \<Rightarrow> oid option"
  isEmail :: "string \<Rightarrow> bool"
  joiNumber :: "string \<Rightarrow> rat option"
  castNumber :: "string \<Rightarrow> bound option"
  castDate :: "json \<Rightarrow> int option"
  regExp :: "string \<Rightarrow> (string \<Rightarrow> bool) option"

section \<open>Validation schemas\<close>

text \<open>
  \<^verbatim>\<open>Joi.object({...})\<close> with the default preferences: keys are checked in the order of
  the schema, unknown keys are not allowed and are reported after the declared ones,
  and \<^verbatim>\<open>abortEarly\<close> stops at the first error. The preference is a parameter of the
  validator, as in Joi, so that the full list of violations can be compared with what
  the handlers report.
\<close>

datatype jtype = JoiString | JoiNumber

datatype rule = Email | Integer | Min rat

record key_schema =
  key :: string
  base :: jtype
  rules :: "rule list"
  required :: bool

type_synonym object_schema = "key_schema list"

definition req :: "string \<Rightarrow> jtype \<Rightarrow> rule list \<Rightarrow> key_schema" where
  "req k t rs = \<lparr>key = k, base = t, rules = rs, required = True\<rparr>"

definition userValidationSchema :: object_schema where
  "userValidationSchema =
    [req ''userName'' JoiString [],
     req ''email'' JoiString [Email],
     req ''password'' JoiString [],
     req ''age'' JoiNumber [Integer, Min 0],
     req ''gender'' JoiString [],
     req ''phone'' JoiString []]"

definition postValidationSchema :: object_schema where
  "postValidationSchema =
    [req ''title'' JoiString [],
     req ''content'' JoiString [],
     req ''userID'' JoiString []]"

text \<open>One entry of \<^verbatim>\<open>error.details\<close>: the error type with the key it is about.\<close>

datatype detail =
    AnyRequired string
  | StringBase string
  | StringEmpty string
  | StringEmail string
  | NumberBase string
  | NumberUnsafe string
  | NumberInteger string
  | NumberMin string rat
  | ObjectUnknown string
  | ObjectBase

text \<open>A value after the base type's check (and conversion).\<close>

datatype checked = CStr string | CNum rat

definition is_integer :: "rat \<Rightarrow> bool" where
  "is_integer r = (rat_of_int \<lfloor>r\<rfloor> = r)"

definition max_safe_integer :: rat where
  "max_safe_integer = 2 ^ 53 - 1"

fun rule_error :: "lib \<Rightarrow> string \<Rightarrow> checked \<Rightarrow> rule \<Rightarrow> detail option" where
  "rule_error L k (CStr s) Email = (if isEmail L s then None else Some (StringEmail k))"
| "rule_error L k (CNum r) Integer = (if is_integer r then None else Some (NumberInteger k))"
| "rule_error L k (CNum r) (Min m) = (if m \<le> r then None else Some (NumberMin k m))"
| "rule_error L k _ _ = None"

text \<open>The rules of a key run in the order they were added; an error ends the run only
  under \<^verbatim>\<open>abortEarly\<close>.\<close>

fun run_rules :: "bool \<Rightarrow> lib \<Rightarrow> string \<Rightarrow> checked \<Rightarrow> rule list \<Rightarrow> detail list" where
  "run_rules abortEarly L k v [] = []"
| "run_rules abortEarly L k v (r # rs) =
    (case rule_error L k v r of
       None \<Rightarrow> run_rules abortEarly L k v rs
     | Some e \<Rightarrow> if abortEarly then [e] else e # run_rules abortEarly L k v rs)"

text \<open>The base type: an error here always ends the check of the key.\<close>

fun check_base :: "lib \<Rightarrow> string \<Rightarrow> jtype \<Rightarrow> json \<Rightarrow> detail + checked" where
  "check_base L k JoiString (JStr s) = (if s = [] then Inl (StringEmpty k) else Inr (CStr s))"
| "check_base L k JoiString _ = Inl (StringBase k)"
| "check_base L k JoiNumber (JNum r) =
    (if max_safe_integer < \<bar>r\<bar> then Inl (NumberUnsafe k) else Inr (CNum r))"
| "check_base L k JoiNumber (JStr s) =
    (case joiNumber L s of
       None \<Rightarrow> Inl (NumberBase k)
     | Some r \<Rightarrow> if max_safe_integer < \<bar>r\<bar> then Inl (NumberUnsafe k) else Inr (CNum r))"
| "check_base L k JoiNumber _ = Inl (NumberBase k)"

definition validate_key :: "bool \<Rightarrow> lib \<Rightarrow> key_schema \<Rightarrow> json option \<Rightarrow> detail list" where
  "validate_key abortEarly L ks item =
    (case item of
       None \<Rightarrow> if required ks then [AnyRequired (key ks)] else []
     | Some v \<Rightarrow>
        (case check_base L (key ks) (base ks) v of
           Inl e \<Rightarrow> [e]
         | Inr c \<Rightarrow> run_rules abortEarly L (key ks) c (rules ks)))"

fun validate_keys :: "bool \<Rightarrow> lib \<Rightarrow> object_schema \<Rightarrow> (string \<times> json) list \<Rightarrow> detail list" where
  "validate_keys abortEarly L [] kvs = []"
| "validate_keys abortEarly L (ks # rest) kvs =
    (let errs = validate_key abortEarly L ks (map_of kvs (key ks))
     in if errs \<noteq> [] \<and> abortEarly then errs
        else errs @ validate_keys abortEarly L rest kvs)"

fun unknown_keys :: "bool \<Rightarrow> string list \<Rightarrow> string list \<Rightarrow> detail list" where
  "unknown_keys abortEarly declared [] = []"
| "unknown_keys abortEarly declared (k # ks) =
    (if k \<in> set declared then unknown_keys abortEarly declared ks
     else if abortEarly then [ObjectUnknown k]
     else ObjectUnknown k # unknown_keys abortEarly declared ks)"

fun validate_with :: "bool \<Rightarrow> lib \<Rightarrow> object_schema \<Rightarrow> json \<Rightarrow> detail list" where
  "validate_with abortEarly L schema (JObj kvs) =
    (let errs = validate_keys abortEarly L schema kvs
     in if errs \<noteq> [] \<and> abortEarly then errs
        else errs @ unknown_keys abortEarly (map key schema) (map fst kvs))"
| "validate_with abortEarly L schema _ = [ObjectBase]"

text \<open>\<^verbatim>\<open>schema.validate(req.body)\<close>: the \<^verbatim>\<open>details\<close> of the error, empty when there is
  none.\<close>

definition validate :: "lib \<Rightarrow> object_schema \<Rightarrow> json \<Rightarrow> detail list" where
  "validate L schema body = validate_with True L schema body"

text \<open>Every violated constraint, in the order Joi finds them (\<^verbatim>\<open>abortEarly: false\<close>).\<close>

definition violations :: "lib \<Rightarrow> object_schema \<Rightarrow> json \<Rightarrow> detail list" where
  "violations L schema body = validate_with False L schema body"

section \<open>Models and store\<close>

text \<open>
  The two Mongoose models. Every document the handlers save comes from a body that
  passed validation, so every path of a stored document holds a value. A collection is
  the list of its documents in insertion order.
\<close>

record user =
  user_id :: oid
  userName :: string
  email :: string
  password :: string
  age :: rat
  gender :: string
  phone :: string

record post =
  post_id :: oid
  title :: string
  content :: string
  userID :: oid
  date :: int

record store =
  users :: "user list"
  posts :: "post list"

datatype payload =
    Text string
  | Message detail
  | UserDoc user
  | PostDoc post
  | UserDocs "user list"
  | NoDoc

type_synonym response = "nat \<times> payload"

text \<open>The \<^verbatim>\<open>catch\<close> block of every handler.\<close>

definition server_error :: response where
  "server_error = (500, Text ''Server error'')"

subsection \<open>Casting a body to a document\<close>

text \<open>
  A path of type String or Number, read from a body. The handlers cast only bodies that
  passed validation, where the value is a text or a number; \<open>None\<close> stands for any
  other value, and for a text that Mongoose cannot cast to a finite number.
\<close>

definition string_path :: "json \<Rightarrow> string \<Rightarrow> string option" where
  "string_path body k = (case get_prop body k of Some (JStr s) \<Rightarrow> Some s | _ \<Rightarrow> None)"

definition number_path :: "lib \<Rightarrow> json \<Rightarrow> string \<Rightarrow> rat option" where
  "number_path L body k =
    (case get_prop body k of
       Some (JNum r) \<Rightarrow> Some r
     | Some (JStr s) \<Rightarrow> (case castNumber L s of Some (Num r) \<Rightarrow> Some r | _ \<Rightarrow> None)
     | _ \<Rightarrow> None)"

definition objectid_path :: "lib \<Rightarrow> json \<Rightarrow> string \<Rightarrow> oid option" where
  "objectid_path L body k =
    (case get_prop body k of Some (JStr s) \<Rightarrow> castObjectId L s | _ \<Rightarrow> None)"

text \<open>\<^verbatim>\<open>date: { type: Date, default: Date.now }\<close>: the default applies when the body has
  no \<^verbatim>\<open>date\<close>.\<close>

definition date_path :: "lib \<Rightarrow> int \<Rightarrow> json \<Rightarrow> int option" where
  "date_path L now body =
    (case get_prop body ''date'' of None \<Rightarrow> Some now | Some v \<Rightarrow> castDate L v)"

text \<open>\<^verbatim>\<open>new User(req.body)\<close> and \<^verbatim>\<open>new Post(req.body)\<close>, with the fresh \<^verbatim>\<open>_id\<close> the
  constructor generates.\<close>

definition new_User :: "lib \<Rightarrow> oid \<Rightarrow> json \<Rightarrow> user option" where
  "new_User L i body = do {
     n \<leftarrow> string_path body ''userName'';
     e \<leftarrow> string_path body ''email'';
     p \<leftarrow> string_path body ''password'';
     a \<leftarrow> number_path L body ''age'';
     g \<leftarrow> string_path body ''gender'';
     ph \<leftarrow> string_path body ''phone'';
     Some \<lparr>user_id = i, userName = n, email = e, password = p, age = a, gender = g,
           phone = ph\<rparr>
   }"

definition new_Post :: "lib \<Rightarrow> oid \<Rightarrow> int \<Rightarrow> json \<Rightarrow> post option" where
  "new_Post L i now body = do {
     t \<leftarrow> string_path body ''title'';
     c \<leftarrow> string_path body ''content'';
     u \<leftarrow> objectid_path L body ''userID'';
     d \<leftarrow> date_path L now body;
     Some \<lparr>post_id = i, title = t, content = c, userID = u, date = d\<rparr>
   }"

text \<open>\<^verbatim>\<open>post.set(req.body)\<close>, and the update that \<^verbatim>\<open>findByIdAndUpdate\<close> applies to the
  user with the given \<^verbatim>\<open>_id\<close>: a validated body sets every path.\<close>

definition set_Post :: "lib \<Rightarrow> json \<Rightarrow> post \<Rightarrow> post option" where
  "set_Post L body p = do {
     t \<leftarrow> string_path body ''title'';
     c \<leftarrow> string_path body ''content'';
     u \<leftarrow> objectid_path L body ''userID'';
     Some (p\<lparr>title := t, content := c, userID := u\<rparr>)
   }"

definition set_User :: "lib \<Rightarrow> oid \<Rightarrow> json \<Rightarrow> user option" where
  "set_User L i body = new_User L i body"

subsection \<open>Queries\<close>

definition findUserById :: "oid \<Rightarrow> store \<Rightarrow> user option" where
  "findUserById i s = find (\<lambda>u. user_id u = i) (users s)"

definition findPostById :: "oid \<Rightarrow> store \<Rightarrow> post option" where
  "findPostById i s = find (\<lambda>p. post_id p = i) (posts s)"

text \<open>\<^verbatim>\<open>User.findOne({ email: req.body.email })\<close>: a stored email is a text, and only a
  text equals it.\<close>

definition findUserByEmail :: "json option \<Rightarrow> store \<Rightarrow> user option" where
  "findUserByEmail v s = find (\<lambda>u. v = Some (JStr (email u))) (users s)"

text \<open>
  The unique index on \<^verbatim>\<open>email\<close>: a write that would give two documents the same
  email fails with a duplicate-key error (\<open>None\<close>).
\<close>

definition save_user :: "user \<Rightarrow> store \<Rightarrow> store option" where
  "save_user u s =
    (if email u \<in> set (map email (users s)) then None
     else Some (s\<lparr>users := users s @ [u]\<rparr>))"

definition update_user :: "user \<Rightarrow> store \<Rightarrow> store option" where
  "update_user u s =
    (if \<exists>w \<in> set (users s). user_id w \<noteq> user_id u \<and> email w = email u then None
     else Some (s\<lparr>users := map (\<lambda>w. if user_id w = user_id u then u else w) (users s)\<rparr>))"

definition save_post :: "post \<Rightarrow> store \<Rightarrow> store" where
  "save_post p s = s\<lparr>posts := posts s @ [p]\<rparr>"

definition update_post :: "post \<Rightarrow> store \<Rightarrow> store" where
  "update_post p s =
    s\<lparr>posts := map (\<lambda>q. if post_id q = post_id p then p else q) (posts s)\<rparr>"

definition remove_post :: "post \<Rightarrow> store \<Rightarrow> store" where
  "remove_post p s = s\<lparr>posts := filter (\<lambda>q. post_id q \<noteq> post_id p) (posts s)\<rparr>"

text \<open>
  A filter document is a list of paths, each with its operators. A comparison holds
  only between values of one type: no number is below, or at or above, \<^verbatim>\<open>null\<close>, which
  is also what an \<^verbatim>\<open>undefined\<close> operand is sent as.
\<close>

datatype cond = Regex "string \<Rightarrow> bool" | Lt bound | Gte bound | Lte bound

datatype fieldval = FText string | FNumber rat

definition user_path :: "user \<Rightarrow> string \<Rightarrow> fieldval option" where
  "user_path u k =
    (if k = ''userName'' then Some (FText (userName u))
     else if k = ''email'' then Some (FText (email u))
     else if k = ''password'' then Some (FText (password u))
     else if k = ''age'' then Some (FNumber (age u))
     else if k = ''gender'' then Some (FText (gender u))
     else if k = ''phone'' then Some (FText (phone u))
     else None)"

fun cond_holds :: "cond \<Rightarrow> fieldval \<Rightarrow> bool" where
  "cond_holds (Regex m) (FText t) = m t"
| "cond_holds (Lt (Num b)) (FNumber a) = (a < b)"
| "cond_holds (Lt PosInf) (FNumber a) = True"
| "cond_holds (Gte (Num b)) (FNumber a) = (b \<le> a)"
| "cond_holds (Gte NegInf) (FNumber a) = True"
| "cond_holds (Lte (Num b)) (FNumber a) = (a \<le> b)"
| "cond_holds (Lte PosInf) (FNumber a) = True"
| "cond_holds _ _ = False"

definition matches :: "(string \<times> cond list) list \<Rightarrow> user \<Rightarrow> bool" where
  "matches q u =
    list_all (\<lambda>(k, cs). case user_path u k of
                          None \<Rightarrow> False
                        | Some v \<Rightarrow> list_all (\<lambda>c. cond_holds c v) cs) q"

definition User_find :: "(string \<times> cond list) list \<Rightarrow> store \<Rightarrow> user list" where
  "User_find q s = filter (matches q) (users s)"

text \<open>A query parameter as an operand of a comparison on \<^verbatim>\<open>age\<close>: Mongoose casts a
  text to a Number and leaves \<^verbatim>\<open>undefined\<close> as it is.\<close>

definition operand :: "lib \<Rightarrow> param \<Rightarrow> bound option" where
  "operand L q = (case q of None \<Rightarrow> Some Null | Some t \<Rightarrow> castNumber L t)"

text \<open>A template literal prints \<^verbatim>\<open>undefined\<close> for an absent parameter.\<close>

definition template :: "param \<Rightarrow> string" where
  "template q = (case q of None \<Rightarrow> ''undefined'' | Some t \<Rightarrow> t)"

section \<open>Route handlers\<close>

text \<open>
  A handler takes the request (the path parameter, the query parameters or the body)
  and the store, and returns the store it leaves with the status and payload it sends.
  The handlers that create a document also take the \<^verbatim>\<open>_id\<close> generated for it, and
  \<^verbatim>\<open>Date.now()\<close>. Requests are handled one at a time.
\<close>

text \<open>\<^verbatim>\<open>app.post('/api/users/signup')\<close>\<close>

definition signup :: "lib \<Rightarrow> oid \<Rightarrow> json \<Rightarrow> store \<Rightarrow> store \<times> response" where
  "signup L i body s =
    (case validate L userValidationSchema body of
       e # _ \<Rightarrow> (s, 400, Message e)
     | [] \<Rightarrow>
        (case findUserByEmail (get_prop body ''email'') s of
           Some existingUser \<Rightarrow> (s, 400, Text ''Email already exists'')
         | None \<Rightarrow>
            (case new_User L i body of
               None \<Rightarrow> (s, server_error)
             | Some u \<Rightarrow>
                (case save_user u s of
                   None \<Rightarrow> (s, server_error)
                 | Some s' \<Rightarrow> (s', 200, UserDoc u)))))"

text \<open>\<^verbatim>\<open>app.put('/api/users/:id')\<close>: \<^verbatim>\<open>findByIdAndUpdate\<close> casts the id and the update
  before it looks the document up.\<close>

definition put_user :: "lib \<Rightarrow> string \<Rightarrow> json \<Rightarrow> store \<Rightarrow> store \<times> response" where
  "put_user L rid body s =
    (case validate L userValidationSchema body of
       e # _ \<Rightarrow> (s, 400, Message e)
     | [] \<Rightarrow>
        (case castObjectId L rid of
           None \<Rightarrow> (s, server_error)
         | Some i \<Rightarrow>
            (case set_User L i body of
               None \<Rightarrow> (s, server_error)
             | Some u' \<Rightarrow>
                (case findUserById i s of
                   None \<Rightarrow> (s, 404, Text ''User not found'')
                 | Some u \<Rightarrow>
                    (case update_user u' s of
                       None \<Rightarrow> (s, server_error)
                     | Some s' \<Rightarrow> (s', 200, UserDoc u'))))))"

text \<open>\<^verbatim>\<open>app.get('/api/users/search')\<close>: the regular expression is built first, inside the
  \<^verbatim>\<open>try\<close> block.\<close>

definition search :: "lib \<Rightarrow> param \<Rightarrow> param \<Rightarrow> store \<Rightarrow> response" where
  "search L nameStartsWith maxAge s =
    (case regExp L (CHR ''^'' # template nameStartsWith) of
       None \<Rightarrow> server_error
     | Some re \<Rightarrow>
        (case operand L maxAge of
           None \<Rightarrow> server_error
         | Some b \<Rightarrow>
            (200, UserDocs (User_find [(''userName'', [Regex re]), (''age'', [Lt b])] s))))"

text \<open>\<^verbatim>\<open>app.get('/api/users/search/age')\<close>\<close>

definition search_age :: "lib \<Rightarrow> param \<Rightarrow> param \<Rightarrow> store \<Rightarrow> response" where
  "search_age L minAge maxAge s =
    (case operand L minAge of
       None \<Rightarrow> server_error
     | Some lo \<Rightarrow>
        (case operand L maxAge of
           None \<Rightarrow> server_error
         | Some hi \<Rightarrow> (200, UserDocs (User_find [(''age'', [Gte lo, Lte hi])] s))))"

text \<open>
  \<^verbatim>\<open>app.get('/api/users/:id/profile')\<close>. \<^verbatim>\<open>populate\<close> replaces the references held at a
  path by the documents they refer to. The User schema declares no \<^verbatim>\<open>posts\<close> and no
  path that holds references, and Mongoose 5 (the version that the connection options
  of the source belong to) ignores a path that the schema does not declare: for every
  path the document comes back as it is.
\<close>

definition populate :: "string \<Rightarrow> user \<Rightarrow> user" where
  "populate path u = u"

definition profile :: "lib \<Rightarrow> string \<Rightarrow> store \<Rightarrow> response" where
  "profile L rid s =
    (case castObjectId L rid of
       None \<Rightarrow> server_error
     | Some i \<Rightarrow>
        (case findUserById i s of
           None \<Rightarrow> (404, Text ''User not found'')
         | Some u \<Rightarrow>
            (case findUserById i s of
               None \<Rightarrow> (200, NoDoc)
             | Some userProfile \<Rightarrow> (200, UserDoc (populate ''posts'' userProfile)))))"

text \<open>\<^verbatim>\<open>app.post('/api/posts')\<close>\<close>

definition create_post :: "lib \<Rightarrow> oid \<Rightarrow> int \<Rightarrow> json \<Rightarrow> store \<Rightarrow> store \<times> response" where
  "create_post L i now body s =
    (case validate L postValidationSchema body of
       e # _ \<Rightarrow> (s, 400, Message e)
     | [] \<Rightarrow>
        (case objectid_path L body ''userID'' of
           None \<Rightarrow> (s, server_error)
         | Some uid \<Rightarrow>
            (case findUserById uid s of
               None \<Rightarrow> (s, 404, Text ''User not found'')
             | Some u \<Rightarrow>
                (case new_Post L i now body of
                   None \<Rightarrow> (s, server_error)
                 | Some p \<Rightarrow> (save_post p s, 200, PostDoc p)))))"

text \<open>\<^verbatim>\<open>app.delete('/api/posts/:id')\<close>: the body is not validated; the stored owner is
  compared with \<^verbatim>\<open>req.body.userID\<close> by \<^verbatim>\<open>!==\<close>, so only a text can equal it.\<close>

definition delete_post :: "lib \<Rightarrow> string \<Rightarrow> json \<Rightarrow> store \<Rightarrow> store \<times> response" where
  "delete_post L rid body s =
    (case castObjectId L rid of
       None \<Rightarrow> (s, server_error)
     | Some i \<Rightarrow>
        (case findPostById i s of
           None \<Rightarrow> (s, 404, Text ''Post not found'')
         | Some p \<Rightarrow>
            if Some (JStr (userID p)) \<noteq> get_prop body ''userID''
            then (s, 403, Text ''You are not authorized to delete this post'')
            else (remove_post p s, 200, PostDoc p)))"

text \<open>\<^verbatim>\<open>app.put('/api/posts/:id')\<close>\<close>

definition put_post :: "lib \<Rightarrow> string \<Rightarrow> json \<Rightarrow> store \<Rightarrow> store \<times> response" where
  "put_post L rid body s =
    (case validate L postValidationSchema body of
       e # _ \<Rightarrow> (s, 400, Message e)
     | [] \<Rightarrow>
        (case castObjectId L rid of
           None \<Rightarrow> (s, server_error)
         | Some i \<Rightarrow>
            (case findPostById i s of
               None \<Rightarrow> (s, 404, Text ''Post not found'')
             | Some p \<Rightarrow>
                if Some (JStr (userID p)) \<noteq> get_prop body ''userID''
                then (s, 403, Text ''You are not authorized to update this post'')
                else
                  (case set_Post L body p of
                     None \<Rightarrow> (s, server_error)
                   | Some p' \<Rightarrow> (update_post p' s, 200, PostDoc p')))))"

section \<open>A sample of the libraries\<close>

text \<open>
  One instance of the library parameters, for running the handlers on concrete
  requests. It accepts 24 hexadecimal digits as an ObjectId, unsigned decimal numerals
  as numbers (and casts the empty text to \<^verbatim>\<open>null\<close>), integral numbers as dates, texts
  with an \<^verbatim>\<open>@\<close> as emails, and patterns made of ordinary characters and dots; on
  these it answers as the libraries do.
\<close>

definition lower :: "char \<Rightarrow> char" where
  "lower c =
    (case map_of (zip ''ABCDEFGHIJKLMNOPQRSTUVWXYZ'' ''abcdefghijklmnopqrstuvwxyz'') c of
       Some d \<Rightarrow> d
     | None \<Rightarrow> c)"

text \<open>The characters with a meaning of their own in a pattern (the last is the
  backslash).\<close>

definition syntax_chars :: "char list" where
  "syntax_chars = ''^$.*+?()[]{}|'' @ [CHR 0x5C]"

definition plain :: "string \<Rightarrow> bool" where
  "plain p = list_all (\<lambda>c. c \<notin> set syntax_chars) p"

text \<open>A text starts with a prefix, compared case-insensitively.\<close>

definition starts_with_ci :: "string \<Rightarrow> string \<Rightarrow> bool" where
  "starts_with_ci p t = (map lower (take (length p) t) = map lower p)"

fun match_atoms :: "string \<Rightarrow> string \<Rightarrow> bool" where
  "match_atoms [] t = True"
| "match_atoms (a # as) [] = False"
| "match_atoms (a # as) (c # cs) =
    ((if a = CHR ''.'' then c \<notin> {CHR 0x0A, CHR 0x0D} else lower a = lower c)
     \<and> match_atoms as cs)"

definition sample_regExp :: "string \<Rightarrow> (string \<Rightarrow> bool) option" where
  "sample_regExp src =
    (case src of
       [] \<Rightarrow> None
     | c # p \<Rightarrow>
        if c = CHR ''^'' \<and> list_all (\<lambda>a. a = CHR ''.'' \<or> a \<notin> set syntax_chars) p
        then Some (match_atoms p) else None)"

fun digits :: "nat \<Rightarrow> string \<Rightarrow> nat option" where
  "digits acc [] = Some acc"
| "digits acc (c # cs) =
    (case map_of (zip ''0123456789'' [0, 1, 2, 3, 4, 5, 6, 7, 8, 9]) c of
       None \<Rightarrow> None
     | Some d \<Rightarrow> digits (10 * acc + d) cs)"

definition numeral_text :: "string \<Rightarrow> rat option" where
  "numeral_text t = (if t = [] then None else map_option of_nat (digits 0 t))"

definition sample_lib :: lib where
  "sample_lib =
    \<lparr>castObjectId =
       (\<lambda>t. if length t = 24 \<and> list_all (\<lambda>c. c \<in> set ''0123456789abcdefABCDEF'') t
            then Some (map lower t) else None),
     isEmail = (\<lambda>t. CHR ''@'' \<in> set t),
     joiNumber = numeral_text,
     castNumber = (\<lambda>t. if t = [] then Some Null else map_option Num (numeral_text t)),
     castDate = (\<lambda>v. case v of JNum r \<Rightarrow> if is_integer r then Some \<lfloor>r\<rfloor> else None
                       | _ \<Rightarrow> None),
     regExp = sample_regExp\<rparr>"

section \<open>What the properties assume of the libraries\<close>

text \<open>
  A numeral that Joi converts is cast by Mongoose to the same number.
\<close>

definition numbers_agree :: "lib \<Rightarrow> bool" where
  "numbers_agree L = (\<forall>t r. joiNumber L t = Some r \<longrightarrow> castNumber L t = Some (Num r))"

text \<open>
  A pattern that is \<^verbatim>\<open>^\<close> followed by ordinary characters matches the texts that start
  with these characters, compared case-insensitively.
\<close>

definition literal_regExp :: "lib \<Rightarrow> bool" where
  "literal_regExp L = (\<forall>p. plain p \<longrightarrow> regExp L (CHR ''^'' # p) = Some (starts_with_ci p))"

text \<open>
  The text of a stored owner's ObjectId is cast back to that ObjectId.
\<close>

definition canonical_owners :: "lib \<Rightarrow> store \<Rightarrow> bool" where
  "canonical_owners L s = (\<forall>p \<in> set (posts s). castObjectId L (userID p) = Some (userID p))"

section \<open>Sample documents and requests\<close>

definition alice :: user where
  "alice = \<lparr>user_id = ''5f0000000000000000000001'', userName = ''Alice'',
     email = ''alice@example.com'', password = ''a1'', age = 30, gender = ''female'',
     phone = ''0100''\<rparr>"

definition albert :: user where
  "albert = \<lparr>user_id = ''5f0000000000000000000002'', userName = ''ALBERT'',
     email = ''albert@example.com'', password = ''b2'', age = 19, gender = ''male'',
     phone = ''0101''\<rparr>"

definition balrog :: user where
  "balrog = \<lparr>user_id = ''5f0000000000000000000003'', userName = ''Balrog'',
     email = ''balrog@example.com'', password = ''c3'', age = 31, gender = ''male'',
     phone = ''0102''\<rparr>"

definition bob :: user where
  "bob = \<lparr>user_id = ''5f0000000000000000000004'', userName = ''bob'',
     email = ''bob@example.com'', password = ''d4'', age = 20, gender = ''male'',
     phone = ''0103''\<rparr>"

definition carol :: user where
  "carol = \<lparr>user_id = ''5f0000000000000000000005'', userName = ''Carol'',
     email = ''carol@example.com'', password = ''e5'', age = 41, gender = ''female'',
     phone = ''0104''\<rparr>"

definition first_post :: post where
  "first_post = \<lparr>post_id = ''6a0000000000000000000001'', title = ''Hello'',
     content = ''First post'', userID = ''5f0000000000000000000001'', date = 1000\<rparr>"

definition sample_store :: store where
  "sample_store = \<lparr>users = [alice, albert, balrog, bob], posts = [first_post]\<rparr>"

definition post_body :: "string \<Rightarrow> string \<Rightarrow> json" where
  "post_body t owner =
     JObj [(''title'', JStr t), (''content'', JStr ''Edited''), (''userID'', JStr owner)]"

definition user_body :: "string \<Rightarrow> json \<Rightarrow> json" where
  "user_body e a =
     JObj [(''userName'', JStr ''Carol''), (''email'', JStr e), (''password'', JStr ''e5''),
           (''age'', a), (''gender'', JStr ''female''), (''phone'', JStr ''0104'')]"

definition bad_user_body :: json where
  "bad_user_body =
     JObj [(''userName'', JNum 3), (''email'', JStr ''carol''), (''age'', JNum (- 3 / 2)),
           (''gender'', JStr []), (''nickname'', JNull)]"

section \<open>Properties\<close>

subsection \<open>Validation\<close>

lemma run_rules_abort: "run_rules True L k v rs = take 1 (run_rules False L k v rs)"
  by (induction rs) (auto split: option.splits)

lemma validate_key_abort:
  "validate_key True L ks item = take 1 (validate_key False L ks item)"
  by (simp add: validate_key_def run_rules_abort split: option.splits sum.splits)

lemma take1_append: "take (Suc 0) (xs @ ys) = (if xs = [] then take (Suc 0) ys else take (Suc 0) xs)"
  by (cases xs) auto

lemma validate_keys_abort:
  "validate_keys True L schema kvs = take 1 (validate_keys False L schema kvs)"
proof (induction schema)
  case Nil
  show ?case by simp
next
  case (Cons ks rest)
  show ?case
  proof (cases "validate_key False L ks (map_of kvs (key ks))")
    case Nil
    then show ?thesis using Cons by (simp add: validate_key_abort)
  next
    case (Cons e es)
    then show ?thesis by (simp add: validate_key_abort)
  qed
qed

lemma unknown_keys_abort:
  "unknown_keys True declared ks = take 1 (unknown_keys False declared ks)"
  by (induction ks) auto

lemma validate_with_abort:
  "validate_with True L schema body = take 1 (validate_with False L schema body)"
proof (cases body)
  case (JObj kvs)
  show ?thesis
  proof (cases "validate_keys False L schema kvs")
    case Nil
    then show ?thesis using JObj by (simp add: validate_keys_abort unknown_keys_abort)
  next
    case (Cons e es)
    then show ?thesis using JObj by (simp add: validate_keys_abort)
  qed
qed simp_all

lemma validate_first: "validate L schema body = take 1 (violations L schema body)"
  by (simp add: validate_def violations_def validate_with_abort)

lemma validate_hd:
  "violations L schema body \<noteq> [] \<Longrightarrow> validate L schema body = [hd (violations L schema body)]"
  by (cases "violations L schema body") (simp_all add: validate_first)

lemma unknown_keys_all:
  "unknown_keys False declared ks = map ObjectUnknown (filter (\<lambda>k. k \<notin> set declared) ks)"
  by (induction ks) auto

lemma validate_keys_all:
  "validate_keys False L schema kvs =
     concat (map (\<lambda>ks. validate_key False L ks (map_of kvs (key ks))) schema)"
  by (induction schema) auto

lemma violations_object:
  "violations L schema (JObj kvs) =
     concat (map (\<lambda>ks. validate_key False L ks (map_of kvs (key ks))) schema)
     @ map ObjectUnknown (filter (\<lambda>k. k \<notin> set (map key schema)) (map fst kvs))"
  by (simp add: violations_def validate_keys_all unknown_keys_all)

lemma valid_no_violations:
  "validate L schema body = [] \<Longrightarrow> violations L schema body = []"
  by (cases "violations L schema body") (simp_all add: validate_first)

lemma valid_object:
  assumes "validate L schema body = []"
  obtains kvs where "body = JObj kvs"
  using assms by (cases body) (simp_all add: validate_def)

lemma valid_key:
  assumes "validate L schema (JObj kvs) = []" and "ks \<in> set schema"
  shows "validate_key False L ks (map_of kvs (key ks)) = []"
  using valid_no_violations[OF assms(1)] assms(2) by (auto simp: violations_object)

lemma valid_no_unknown:
  assumes "validate L schema (JObj kvs) = []" and "k \<notin> set (map key schema)"
  shows "map_of kvs k = None"
proof -
  have "filter (\<lambda>k. k \<notin> set (map key schema)) (map fst kvs) = []"
    using valid_no_violations[OF assms(1)] by (simp add: violations_object)
  then have "k \<notin> set (map fst kvs)"
    using assms(2) by (auto simp: filter_empty_conv)
  then show ?thesis by (simp add: map_of_eq_None_iff)
qed

lemma string_key_valid:
  assumes "validate_key False L (req k JoiString rs) item = []"
  obtains t where "item = Some (JStr t)" and "t \<noteq> []"
proof -
  from assms obtain v where v: "item = Some v"
    by (cases item) (simp_all add: validate_key_def req_def)
  with assms obtain c where "check_base L k JoiString v = Inr c"
    by (cases "check_base L k JoiString v") (simp_all add: validate_key_def req_def)
  then obtain t where "v = JStr t" "t \<noteq> []"
    by (cases v) (simp_all split: if_splits)
  with v that show ?thesis by simp
qed

lemma number_key_valid:
  assumes "validate_key False L (req k JoiNumber rs) item = []"
  shows "(\<exists>r. item = Some (JNum r)) \<or> (\<exists>t r. item = Some (JStr t) \<and> joiNumber L t = Some r)"
proof -
  from assms obtain v where v: "item = Some v"
    by (cases item) (simp_all add: validate_key_def req_def)
  with assms obtain c where "check_base L k JoiNumber v = Inr c"
    by (cases "check_base L k JoiNumber v") (simp_all add: validate_key_def req_def)
  then have "(\<exists>r. v = JNum r) \<or> (\<exists>t r. v = JStr t \<and> joiNumber L t = Some r)"
    by (cases v) (simp_all split: if_splits option.splits)
  with v show ?thesis by simp
qed

lemma valid_string_path:
  assumes "validate L schema body = []" and "req k JoiString rs \<in> set schema"
  obtains t where "get_prop body k = Some (JStr t)" and "string_path body k = Some t" and "t \<noteq> []"
proof -
  from assms(1) obtain kvs where b: "body = JObj kvs" by (rule valid_object)
  have "validate_key False L (req k JoiString rs) (map_of kvs k) = []"
    using valid_key[OF assms(1)[unfolded b] assms(2)] by (simp add: req_def)
  then obtain t where "map_of kvs k = Some (JStr t)" "t \<noteq> []" by (rule string_key_valid)
  with b that show ?thesis by (simp add: string_path_def)
qed

lemma valid_number_path:
  assumes "validate L schema body = []" and "req k JoiNumber rs \<in> set schema"
    and "numbers_agree L"
  obtains r where "number_path L body k = Some r"
proof -
  from assms(1) obtain kvs where b: "body = JObj kvs" by (rule valid_object)
  have "validate_key False L (req k JoiNumber rs) (map_of kvs k) = []"
    using valid_key[OF assms(1)[unfolded b] assms(2)] by (simp add: req_def)
  then have "(\<exists>r. map_of kvs k = Some (JNum r))
      \<or> (\<exists>t r. map_of kvs k = Some (JStr t) \<and> joiNumber L t = Some r)"
    by (rule number_key_valid)
  then have "\<exists>r. number_path L body k = Some r"
    using assms(3) b by (auto simp: number_path_def numbers_agree_def)
  with that show ?thesis by blast
qed

lemma valid_new_User:
  assumes v: "validate L userValidationSchema body = []" and n: "numbers_agree L"
  obtains e u where "get_prop body ''email'' = Some (JStr e)" and "new_User L i body = Some u"
    and "email u = e" and "user_id u = i"
proof -
  obtain a where a: "string_path body ''userName'' = Some a"
    by (rule valid_string_path[OF v, of "''userName''" "[]"]) (simp_all add: userValidationSchema_def)
  obtain e where e: "get_prop body ''email'' = Some (JStr e)" "string_path body ''email'' = Some e"
    by (rule valid_string_path[OF v, of "''email''" "[Email]"]) (simp_all add: userValidationSchema_def)
  obtain p where p: "string_path body ''password'' = Some p"
    by (rule valid_string_path[OF v, of "''password''" "[]"]) (simp_all add: userValidationSchema_def)
  obtain g where g: "string_path body ''gender'' = Some g"
    by (rule valid_string_path[OF v, of "''gender''" "[]"]) (simp_all add: userValidationSchema_def)
  obtain ph where ph: "string_path body ''phone'' = Some ph"
    by (rule valid_string_path[OF v, of "''phone''" "[]"]) (simp_all add: userValidationSchema_def)
  obtain r where r: "number_path L body ''age'' = Some r"
    by (rule valid_number_path[OF v _ n, of "''age''" "[Integer, Min 0]"])
       (simp_all add: userValidationSchema_def)
  show ?thesis
    by (rule that[OF e(1), of "\<lparr>user_id = i, userName = a, email = e, password = p, age = r,
          gender = g, phone = ph\<rparr>"]) (simp_all add: new_User_def a e p g ph r)
qed

lemma unknown_key_violation:
  assumes "k \<in> fst ` set kvs" and "k \<notin> set (map key schema)"
  shows "violations L schema (JObj kvs) \<noteq> []"
  using assms by (auto simp: violations_object filter_empty_conv)

subsection \<open>Lookups\<close>

lemma find_Some_mem: "find P xs = Some x \<Longrightarrow> x \<in> set xs \<and> P x"
  by (auto simp: find_Some_iff)

lemma findPostById_Some:
  "findPostById i s = Some p \<Longrightarrow> p \<in> set (posts s) \<and> post_id p = i"
  unfolding findPostById_def by (drule find_Some_mem) simp

lemma findUserById_None: "findUserById i s = None \<longleftrightarrow> i \<notin> user_id ` set (users s)"
  by (auto simp: findUserById_def find_None_iff)

lemma findUserById_Some:
  "findUserById i s = Some u \<Longrightarrow> u \<in> set (users s) \<and> user_id u = i"
  unfolding findUserById_def by (drule find_Some_mem) simp

lemma findUserByEmail_None:
  "findUserByEmail (Some (JStr e)) s = None \<longleftrightarrow> e \<notin> email ` set (users s)"
  by (auto simp: findUserByEmail_def find_None_iff)

lemma find_map_replace:
  assumes "find (\<lambda>q. post_id q = i) xs = Some p" and "post_id p' = i"
  shows "find (\<lambda>q. post_id q = i) (map (\<lambda>q. if post_id q = post_id p' then p' else q) xs) = Some p'"
  using assms by (induction xs) (auto split: if_splits)

lemma map_replace_same_owner:
  assumes "distinct (map post_id xs)" and "p \<in> set xs" and "post_id p' = post_id p"
    and "userID p' = userID p"
  shows "map userID (map (\<lambda>q. if post_id q = post_id p' then p' else q) xs) = map userID xs"
proof -
  have "inj_on post_id (set xs)" using assms(1) by (simp add: distinct_map)
  then have "q = p" if "q \<in> set xs" "post_id q = post_id p'" for q
    using that assms(2,3) by (auto dest: inj_onD)
  then show ?thesis using assms(4) by (auto simp: map_eq_conv)
qed

subsection \<open>The sample of the libraries\<close>

lemmas sample_defs = alice_def albert_def balrog_def bob_def first_post_def sample_store_def
  post_body_def user_body_def

lemma match_atoms_plain:
  "plain p \<Longrightarrow> match_atoms p t = starts_with_ci p t"
proof (induction p arbitrary: t)
  case Nil
  show ?case by (simp add: starts_with_ci_def)
next
  case (Cons a as)
  then have "a \<noteq> CHR ''.''" and "plain as"
    by (auto simp: plain_def syntax_chars_def)
  with Cons.IH[of "tl t"] show ?case
    by (cases t) (auto simp: starts_with_ci_def)
qed

lemma sample_literal: "literal_regExp sample_lib"
proof -
  have "sample_regExp (CHR ''^'' # p) = Some (starts_with_ci p)" if "plain p" for p
  proof -
    have "list_all (\<lambda>a. a = CHR ''.'' \<or> a \<notin> set syntax_chars) p"
      using that by (simp add: plain_def list_all_iff)
    moreover have "match_atoms p = starts_with_ci p"
      using that by (intro ext) (rule match_atoms_plain)
    ultimately show ?thesis by (simp add: sample_regExp_def)
  qed
  then show ?thesis by (simp add: literal_regExp_def sample_lib_def)
qed

lemma sample_numbers_agree: "numbers_agree sample_lib"
  by (auto simp: numbers_agree_def sample_lib_def numeral_text_def)

lemma sample_canonical: "canonical_owners sample_lib sample_store"
  by (simp add: canonical_owners_def sample_lib_def sample_defs lower_def)

subsection \<open>Ownership of posts\<close>

text \<open>
  C1, as amended. A stored post is addressed by a request whose path parameter is
  cast to its \<^verbatim>\<open>_id\<close>. When the body's \<^verbatim>\<open>userID\<close> is not the text of the post's stored
  \<^verbatim>\<open>userID\<close>, DELETE answers 403; PUT answers 403 when the body passes the post schema
  and 400, with the first validation error, when it does not. In each case the store
  is returned as it was: the post is neither removed nor overwritten.
\<close>

theorem owner_mismatch_forbidden:
  assumes "castObjectId L rid = Some i" and "findPostById i s = Some p"
    and "get_prop body ''userID'' \<noteq> Some (JStr (userID p))"
  shows "delete_post L rid body s = (s, 403, Text ''You are not authorized to delete this post'')
    \<and> (validate L postValidationSchema body = [] \<longrightarrow>
         put_post L rid body s = (s, 403, Text ''You are not authorized to update this post''))
    \<and> (validate L postValidationSchema body \<noteq> [] \<longrightarrow>
         put_post L rid body s = (s, 400, Message (hd (validate L postValidationSchema body))))"
proof (intro conjI impI)
  show "delete_post L rid body s = (s, 403, Text ''You are not authorized to delete this post'')"
    using assms by (auto simp: delete_post_def)
next
  assume "validate L postValidationSchema body = []"
  then show "put_post L rid body s = (s, 403, Text ''You are not authorized to update this post'')"
    using assms by (auto simp: put_post_def)
next
  assume "validate L postValidationSchema body \<noteq> []"
  then show "put_post L rid body s = (s, 400, Message (hd (validate L postValidationSchema body)))"
    by (cases "validate L postValidationSchema body") (simp_all add: put_post_def)
qed

theorem owner_mismatch_forbidden_witness:
  "castObjectId sample_lib ''6a0000000000000000000001'' = Some (post_id first_post)
   \<and> findPostById (post_id first_post) sample_store = Some first_post
   \<and> userID first_post = user_id alice
   \<and> delete_post sample_lib ''6a0000000000000000000001'' (JObj [(''userID'', JStr (user_id bob))])
        sample_store
      = (sample_store, 403, Text ''You are not authorized to delete this post'')
   \<and> put_post sample_lib ''6a0000000000000000000001'' (post_body ''Mine'' (user_id bob))
        sample_store
      = (sample_store, 403, Text ''You are not authorized to update this post'')
   \<and> put_post sample_lib ''6a0000000000000000000001'' (JObj [(''userID'', JStr (user_id bob))])
        sample_store
      = (sample_store, 400, Message (AnyRequired ''title''))"
proof -
  have c: "castObjectId sample_lib ''6a0000000000000000000001'' = Some (post_id first_post)"
    by code_simp
  have f: "findPostById (post_id first_post) sample_store = Some first_post"
    by code_simp
  have o: "userID first_post = user_id alice"
    by code_simp
  have d1: "get_prop (JObj [(''userID'', JStr (user_id bob))]) ''userID''
      \<noteq> Some (JStr (userID first_post))"
    by code_simp
  have d2: "get_prop (post_body ''Mine'' (user_id bob)) ''userID''
      \<noteq> Some (JStr (userID first_post))"
    by code_simp
  have v2: "validate sample_lib postValidationSchema (post_body ''Mine'' (user_id bob)) = []"
    by code_simp
  have v1: "validate sample_lib postValidationSchema (JObj [(''userID'', JStr (user_id bob))])
      = [AnyRequired ''title'']"
    by code_simp
  show ?thesis
    using owner_mismatch_forbidden[OF c f d1] owner_mismatch_forbidden[OF c f d2] c f o v1 v2
    by simp
qed

text \<open>
  C1 as stated fails for PUT: the body is validated before the owner is compared, so
  a body that names another owner and lacks a title is answered with 400, not 403.
\<close>

theorem owner_mismatch_forbidden_counterexample:
  "findPostById ''6a0000000000000000000001'' sample_store = Some first_post
   \<and> get_prop (JObj [(''userID'', JStr ''5f0000000000000000000004'')]) ''userID''
       \<noteq> Some (JStr (userID first_post))
   \<and> put_post sample_lib ''6a0000000000000000000001''
        (JObj [(''userID'', JStr ''5f0000000000000000000004'')]) sample_store
      = (sample_store, 400, Message (AnyRequired ''title''))"
  by code_simp

text \<open>
  C9. A PUT on a post that is answered with 200 leaves the post's \<^verbatim>\<open>userID\<close> as it
  was: the request addressed a stored post, the response carries the updated post, that
  post is what the \<^verbatim>\<open>_id\<close> now finds, and its owner is the owner before the update.
  Where no two stored posts share an \<^verbatim>\<open>_id\<close>, the owners of all stored posts are as
  they were.
\<close>

theorem put_post_keeps_owner:
  assumes "put_post L rid body s = (s', 200, pl)" and "canonical_owners L s"
  shows "\<exists>i p p'. castObjectId L rid = Some i \<and> findPostById i s = Some p
      \<and> pl = PostDoc p' \<and> findPostById i s' = Some p' \<and> userID p' = userID p
      \<and> (distinct (map post_id (posts s)) \<longrightarrow> map userID (posts s') = map userID (posts s))"
proof -
  from assms(1) have v: "validate L postValidationSchema body = []"
    by (cases "validate L postValidationSchema body") (simp_all add: put_post_def)
  from assms(1) v obtain i where i: "castObjectId L rid = Some i"
    by (cases "castObjectId L rid") (simp_all add: put_post_def server_error_def)
  from assms(1) v i obtain p where p: "findPostById i s = Some p"
    by (cases "findPostById i s") (simp_all add: put_post_def)
  from assms(1) v i p have own: "get_prop body ''userID'' = Some (JStr (userID p))"
    by (auto simp: put_post_def split: if_splits)
  from assms(1) v i p own obtain p' where p': "set_Post L body p = Some p'"
      and res: "s' = update_post p' s" "pl = PostDoc p'"
    by (cases "set_Post L body p") (simp_all add: put_post_def server_error_def)
  have mem: "p \<in> set (posts s)" and pid: "post_id p = i"
    using findPostById_Some[OF p] by simp_all
  have cast: "castObjectId L (userID p) = Some (userID p)"
    using assms(2) mem by (simp add: canonical_owners_def)
  from p' have u: "userID p' = userID p" and id': "post_id p' = i"
    by (auto simp: set_Post_def objectid_path_def own cast pid split: Option.bind_splits)
  have "findPostById i s' = Some p'"
    using find_map_replace[OF p[unfolded findPostById_def] id'] id'
    by (simp add: res update_post_def findPostById_def)
  moreover have "map userID (posts s') = map userID (posts s)"
    if "distinct (map post_id (posts s))"
    using map_replace_same_owner[OF that mem _ u] id' pid
    by (simp add: res update_post_def)
  ultimately show ?thesis using i p res u by blast
qed

theorem put_post_keeps_owner_witness:
  "canonical_owners sample_lib sample_store
   \<and> distinct (map post_id (posts sample_store))
   \<and> put_post sample_lib ''6a0000000000000000000001'' (post_body ''Hello again'' (user_id alice))
        sample_store
      = (sample_store\<lparr>posts := [first_post\<lparr>title := ''Hello again'', content := ''Edited''\<rparr>]\<rparr>,
         200, PostDoc (first_post\<lparr>title := ''Hello again'', content := ''Edited''\<rparr>))
   \<and> map userID (posts (sample_store\<lparr>posts := [first_post\<lparr>title := ''Hello again'',
        content := ''Edited''\<rparr>]\<rparr>)) = map userID (posts sample_store)"
proof -
  have r: "put_post sample_lib ''6a0000000000000000000001''
        (post_body ''Hello again'' (user_id alice)) sample_store
      = (sample_store\<lparr>posts := [first_post\<lparr>title := ''Hello again'', content := ''Edited''\<rparr>]\<rparr>,
         200, PostDoc (first_post\<lparr>title := ''Hello again'', content := ''Edited''\<rparr>))"
    by code_simp
  have d: "distinct (map post_id (posts sample_store))"
    by (simp add: sample_defs)
  show ?thesis
    using put_post_keeps_owner[OF r sample_canonical] r sample_canonical d by auto
qed

subsection \<open>Creating posts\<close>

text \<open>
  C2, as amended. For a body that passes the post schema, \<^verbatim>\<open>userID\<close> is a text. When
  the text is cast to an ObjectId that no stored user has, creation answers 404; when
  the text cannot be cast to an ObjectId, the lookup throws and creation answers 500.
  In both cases the store is returned as it was, so no post is persisted.
\<close>

theorem create_post_unknown_user:
  assumes "validate L postValidationSchema body = []"
  shows "\<exists>t. get_prop body ''userID'' = Some (JStr t)
    \<and> (castObjectId L t = None \<longrightarrow> create_post L i now body s = (s, 500, Text ''Server error''))
    \<and> (\<forall>u. castObjectId L t = Some u \<and> u \<notin> user_id ` set (users s) \<longrightarrow>
          create_post L i now body s = (s, 404, Text ''User not found''))"
proof -
  obtain t where t: "get_prop body ''userID'' = Some (JStr t)"
    by (rule valid_string_path[OF assms, of "''userID''" "[]"]) (simp_all add: postValidationSchema_def)
  have "castObjectId L t = None \<longrightarrow> create_post L i now body s = (s, 500, Text ''Server error'')"
    by (simp add: create_post_def assms objectid_path_def t server_error_def)
  moreover have "\<forall>u. castObjectId L t = Some u \<and> u \<notin> user_id ` set (users s) \<longrightarrow>
          create_post L i now body s = (s, 404, Text ''User not found'')"
    by (auto simp: create_post_def assms objectid_path_def t findUserById_None[symmetric])
  ultimately show ?thesis using t by (intro exI[of _ t] conjI)
qed

theorem create_post_unknown_user_witness:
  "validate sample_lib postValidationSchema (post_body ''Hi'' ''5f00000000000000000000ff'') = []
   \<and> ''5f00000000000000000000ff'' \<notin> user_id ` set (users sample_store)
   \<and> create_post sample_lib ''6a0000000000000000000002'' 2000
        (post_body ''Hi'' ''5f00000000000000000000ff'') sample_store
      = (sample_store, 404, Text ''User not found'')
   \<and> create_post sample_lib ''6a0000000000000000000002'' 2000
        (post_body ''Hi'' ''nobody'') sample_store
      = (sample_store, 500, Text ''Server error'')"
proof -
  have v1: "validate sample_lib postValidationSchema (post_body ''Hi'' ''5f00000000000000000000ff'') = []"
    by code_simp
  have v2: "validate sample_lib postValidationSchema (post_body ''Hi'' ''nobody'') = []"
    by code_simp
  have c1: "castObjectId sample_lib ''5f00000000000000000000ff'' = Some ''5f00000000000000000000ff''"
    by code_simp
  have c2: "castObjectId sample_lib ''nobody'' = None"
    by code_simp
  have n: "''5f00000000000000000000ff'' \<notin> user_id ` set (users sample_store)"
    by (simp add: sample_defs)
  show ?thesis
    using create_post_unknown_user[OF v1, of "''6a0000000000000000000002''" 2000 sample_store]
      create_post_unknown_user[OF v2, of "''6a0000000000000000000002''" 2000 sample_store]
      v1 c1 c2 n
    by (simp add: post_body_def)
qed

text \<open>
  C2 as stated fails for a \<^verbatim>\<open>userID\<close> that is not the text of an ObjectId: the body
  passes validation and no user has that id, but the answer is 500, not 404.
\<close>

theorem create_post_unknown_user_counterexample:
  "validate sample_lib postValidationSchema (post_body ''Hi'' ''nobody'') = []
   \<and> ''nobody'' \<notin> user_id ` set (users sample_store)
   \<and> create_post sample_lib ''6a0000000000000000000002'' 2000
        (post_body ''Hi'' ''nobody'') sample_store
      = (sample_store, 500, Text ''Server error'')"
  by code_simp

subsection \<open>Signing up\<close>

lemma signup_distinct:
  assumes "distinct (map email (users s))"
  shows "distinct (map email (users (fst (signup L i body s))))"
  using assms
  by (auto simp: signup_def save_user_def server_error_def
      split: list.splits option.splits if_splits)

text \<open>
  C3. For a body that passes the user schema, signup answers 200 with the document it
  appended to the users when no stored user has the body's email, and 400 with no
  change to the store when one has. For every body, signup keeps the emails of the
  stored users distinct.
\<close>

theorem signup_unique_email:
  "(validate L userValidationSchema body = [] \<and> numbers_agree L \<longrightarrow>
     (\<exists>e u. get_prop body ''email'' = Some (JStr e) \<and> new_User L i body = Some u
        \<and> email u = e \<and> user_id u = i
        \<and> (e \<notin> email ` set (users s) \<longrightarrow>
              signup L i body s = (s\<lparr>users := users s @ [u]\<rparr>, 200, UserDoc u))
        \<and> (e \<in> email ` set (users s) \<longrightarrow>
              signup L i body s = (s, 400, Text ''Email already exists''))))
   \<and> (distinct (map email (users s)) \<longrightarrow>
        distinct (map email (users (fst (signup L i body s)))))"
proof (intro conjI impI)
  assume "validate L userValidationSchema body = [] \<and> numbers_agree L"
  then have v: "validate L userValidationSchema body = []" and n: "numbers_agree L"
    by simp_all
  obtain e u where eu: "get_prop body ''email'' = Some (JStr e)" "new_User L i body = Some u"
      "email u = e" "user_id u = i"
    using v n by (rule valid_new_User)
  have ok: "signup L i body s = (s\<lparr>users := users s @ [u]\<rparr>, 200, UserDoc u)"
    if "e \<notin> email ` set (users s)"
  proof -
    have "findUserByEmail (Some (JStr e)) s = None"
      using that by (simp add: findUserByEmail_None)
    moreover have "save_user u s = Some (s\<lparr>users := users s @ [u]\<rparr>)"
      using that eu(3) by (auto simp: save_user_def)
    ultimately show ?thesis by (simp add: signup_def v eu)
  qed
  have dup: "signup L i body s = (s, 400, Text ''Email already exists'')"
    if "e \<in> email ` set (users s)"
  proof -
    have "findUserByEmail (Some (JStr e)) s \<noteq> None"
      using that by (simp add: findUserByEmail_None)
    then show ?thesis by (auto simp: signup_def v eu)
  qed
  show "\<exists>e u. get_prop body ''email'' = Some (JStr e) \<and> new_User L i body = Some u
        \<and> email u = e \<and> user_id u = i
        \<and> (e \<notin> email ` set (users s) \<longrightarrow>
              signup L i body s = (s\<lparr>users := users s @ [u]\<rparr>, 200, UserDoc u))
        \<and> (e \<in> email ` set (users s) \<longrightarrow>
              signup L i body s = (s, 400, Text ''Email already exists''))"
    using eu ok dup by blast
next
  assume "distinct (map email (users s))"
  then show "distinct (map email (users (fst (signup L i body s))))"
    by (rule signup_distinct)
qed

theorem signup_unique_email_witness:
  "validate sample_lib userValidationSchema (user_body ''carol@example.com'' (JStr ''41'')) = []
   \<and> ''carol@example.com'' \<notin> email ` set (users sample_store)
   \<and> signup sample_lib ''5f0000000000000000000005''
        (user_body ''carol@example.com'' (JStr ''41'')) sample_store
      = (sample_store\<lparr>users := users sample_store @ [carol]\<rparr>, 200, UserDoc carol)
   \<and> ''bob@example.com'' \<in> email ` set (users sample_store)
   \<and> signup sample_lib ''5f0000000000000000000005''
        (user_body ''bob@example.com'' (JNum 41)) sample_store
      = (sample_store, 400, Text ''Email already exists'')
   \<and> distinct (map email (users sample_store))
   \<and> distinct (map email (users (fst (signup sample_lib ''5f0000000000000000000005''
        (user_body ''carol@example.com'' (JStr ''41'')) sample_store))))"
proof -
  have v1: "validate sample_lib userValidationSchema
      (user_body ''carol@example.com'' (JStr ''41'')) = []"
    by code_simp
  have v2: "validate sample_lib userValidationSchema (user_body ''bob@example.com'' (JNum 41)) = []"
    by code_simp
  have n1: "new_User sample_lib ''5f0000000000000000000005''
      (user_body ''carol@example.com'' (JStr ''41'')) = Some carol"
    by code_simp
  have m1: "''carol@example.com'' \<notin> email ` set (users sample_store)"
    by (simp add: sample_defs)
  have m2: "''bob@example.com'' \<in> email ` set (users sample_store)"
    by (simp add: sample_defs)
  have d: "distinct (map email (users sample_store))"
    by (simp add: sample_defs)
  note carol_signup = signup_unique_email[of sample_lib
      "user_body ''carol@example.com'' (JStr ''41'')" "''5f0000000000000000000005''" sample_store]
  note bob_signup = signup_unique_email[of sample_lib
      "user_body ''bob@example.com'' (JNum 41)" "''5f0000000000000000000005''" sample_store]
  obtain e u where eu: "get_prop (user_body ''carol@example.com'' (JStr ''41'')) ''email''
        = Some (JStr e)"
      "new_User sample_lib ''5f0000000000000000000005''
        (user_body ''carol@example.com'' (JStr ''41'')) = Some u"
    and ok: "e \<notin> email ` set (users sample_store) \<longrightarrow>
      signup sample_lib ''5f0000000000000000000005''
        (user_body ''carol@example.com'' (JStr ''41'')) sample_store
      = (sample_store\<lparr>users := users sample_store @ [u]\<rparr>, 200, UserDoc u)"
    using carol_signup v1 sample_numbers_agree by blast
  have "e = ''carol@example.com''" using eu(1) by (simp add: user_body_def)
  moreover have "u = carol" using eu(2) n1 by simp
  ultimately have r1: "signup sample_lib ''5f0000000000000000000005''
        (user_body ''carol@example.com'' (JStr ''41'')) sample_store
      = (sample_store\<lparr>users := users sample_store @ [carol]\<rparr>, 200, UserDoc carol)"
    using ok m1 by simp
  obtain e' where e': "get_prop (user_body ''bob@example.com'' (JNum 41)) ''email''
        = Some (JStr e')"
    and dup: "e' \<in> email ` set (users sample_store) \<longrightarrow>
      signup sample_lib ''5f0000000000000000000005''
        (user_body ''bob@example.com'' (JNum 41)) sample_store
      = (sample_store, 400, Text ''Email already exists'')"
    using bob_signup v2 sample_numbers_agree by blast
  have "e' = ''bob@example.com''" using e' by (simp add: user_body_def)
  then have r2: "signup sample_lib ''5f0000000000000000000005''
        (user_body ''bob@example.com'' (JNum 41)) sample_store
      = (sample_store, 400, Text ''Email already exists'')"
    using dup m2 by simp
  have "distinct (map email (users (fst (signup sample_lib ''5f0000000000000000000005''
        (user_body ''carol@example.com'' (JStr ''41'')) sample_store))))"
    using carol_signup d by blast
  with v1 m1 m2 d r1 r2 show ?thesis by blast
qed

subsection \<open>Searching users\<close>

lemma matches_search:
  "matches [(''userName'', [Regex re]), (''age'', [Lt b])]
     = (\<lambda>u. re (userName u) \<and> cond_holds (Lt b) (FNumber (age u)))"
  by (rule ext) (simp add: matches_def user_path_def)

lemma search_plain:
  assumes "literal_regExp L" and "plain t" and "operand L maxAge = Some b"
  shows "search L (Some t) maxAge s
       = (200, UserDocs (filter (\<lambda>u. starts_with_ci t (userName u)
                                    \<and> cond_holds (Lt b) (FNumber (age u))) (users s)))"
  using assms
  by (simp add: search_def template_def literal_regExp_def User_find_def matches_search)

lemma search_absent_name:
  assumes "literal_regExp L" and "operand L maxAge = Some b"
  shows "search L None maxAge s
       = (200, UserDocs (filter (\<lambda>u. starts_with_ci ''undefined'' (userName u)
                                    \<and> cond_holds (Lt b) (FNumber (age u))) (users s)))"
proof -
  have "plain ''undefined''" by (simp add: plain_def syntax_chars_def)
  then have "regExp L (CHR ''^'' # ''undefined'') = Some (starts_with_ci ''undefined'')"
    using assms(1) unfolding literal_regExp_def by blast
  then show ?thesis
    using assms(2) by (simp add: search_def template_def User_find_def matches_search)
qed

text \<open>
  C4, as amended. With the empty text as \<^verbatim>\<open>nameStartsWith\<close> the name clause matches
  every user: the result is the users that satisfy the age clause. With
  \<^verbatim>\<open>nameStartsWith\<close> absent the pattern is built from the text \<^verbatim>\<open>undefined\<close>, and the
  name clause matches the users whose name starts with it. With \<^verbatim>\<open>maxAge\<close> absent the
  age is compared with an undefined bound, which no stored age is below: the result is
  empty, also when both parameters are absent.
\<close>

theorem search_absent_parameters:
  assumes "literal_regExp L"
  shows "(\<forall>b. operand L maxAge = Some b \<longrightarrow>
            search L (Some []) maxAge s
              = (200, UserDocs (filter (\<lambda>u. cond_holds (Lt b) (FNumber (age u))) (users s)))
          \<and> search L None maxAge s
              = (200, UserDocs (filter (\<lambda>u. starts_with_ci ''undefined'' (userName u)
                                           \<and> cond_holds (Lt b) (FNumber (age u))) (users s))))
       \<and> search L (Some []) None s = (200, UserDocs [])
       \<and> search L None None s = (200, UserDocs [])"
proof -
  have p: "plain []" by (simp add: plain_def)
  have a: "search L (Some []) maxAge s
      = (200, UserDocs (filter (\<lambda>u. cond_holds (Lt b) (FNumber (age u))) (users s)))"
    if "operand L maxAge = Some b" for b maxAge
    using search_plain[OF assms p that, of s] by (simp add: starts_with_ci_def)
  have n: "operand L None = Some Null" by (simp add: operand_def)
  have "search L (Some []) None s = (200, UserDocs [])"
    using a[OF n] by simp
  moreover have "search L None None s = (200, UserDocs [])"
    using search_absent_name[OF assms n, of s] by simp
  ultimately show ?thesis
    using a search_absent_name[OF assms] by blast
qed

theorem search_absent_parameters_witness:
  "search sample_lib (Some []) (Some ''31'') sample_store = (200, UserDocs [alice, albert, bob])
   \<and> search sample_lib None (Some ''31'') sample_store = (200, UserDocs [])
   \<and> search sample_lib (Some []) None sample_store = (200, UserDocs [])
   \<and> search sample_lib None None sample_store = (200, UserDocs [])"
proof -
  have b: "operand sample_lib (Some ''31'') = Some (Num 31)" by code_simp
  have f1: "filter (\<lambda>u. cond_holds (Lt (Num 31)) (FNumber (age u))) (users sample_store)
      = [alice, albert, bob]"
    by (simp add: sample_defs)
  have f2: "filter (\<lambda>u. starts_with_ci ''undefined'' (userName u)
      \<and> cond_holds (Lt (Num 31)) (FNumber (age u))) (users sample_store) = []"
    by (simp add: sample_defs starts_with_ci_def lower_def)
  show ?thesis
    using search_absent_parameters[OF sample_literal, of "Some ''31''" sample_store] b f1 f2
    by simp
qed

text \<open>
  C4 as stated fails: with both parameters absent, with only \<^verbatim>\<open>nameStartsWith\<close>
  absent, and with only \<^verbatim>\<open>maxAge\<close> absent, the search over four stored users returns
  none of them.
\<close>

theorem search_absent_parameters_counterexample:
  "users sample_store = [alice, albert, balrog, bob]
   \<and> search sample_lib None None sample_store = (200, UserDocs [])
   \<and> search sample_lib None (Some ''99'') sample_store = (200, UserDocs [])
   \<and> search sample_lib (Some []) None sample_store = (200, UserDocs [])"
  by code_simp

text \<open>
  C5 does not hold of the code: \<^verbatim>\<open>nameStartsWith\<close> is placed in the pattern as it is,
  so a text with pattern syntax is not compared as a prefix. With a dot as
  \<^verbatim>\<open>nameStartsWith\<close> every stored user is returned, though no name starts with a dot,
  and with an opening parenthesis the constructor throws and the answer is 500.
\<close>

theorem search_pattern_not_prefix:
  "search sample_lib (Some ''.'') (Some ''99'') sample_store
      = (200, UserDocs [alice, albert, balrog, bob])
   \<and> \<not> starts_with_ci ''.'' (userName alice)
   \<and> search sample_lib (Some ''('') (Some ''99'') sample_store = (500, Text ''Server error'')"
  by code_simp

lemma matches_age_range:
  "matches [(''age'', [Gte (Num lo), Lte (Num hi)])] = (\<lambda>u. lo \<le> age u \<and> age u \<le> hi)"
  by (rule ext) (simp add: matches_def user_path_def)

text \<open>
  C6. When \<^verbatim>\<open>minAge\<close> and \<^verbatim>\<open>maxAge\<close> are cast to the numbers \<open>lo\<close> and \<open>hi\<close>, the
  search by age answers 200 with exactly the stored users whose age is at least \<open>lo\<close>
  and at most \<open>hi\<close>, both bounds included, in the order of the collection.
\<close>

theorem search_age_inclusive:
  assumes "castNumber L a = Some (Num lo)" and "castNumber L b = Some (Num hi)"
  shows "search_age L (Some a) (Some b) s
       = (200, UserDocs (filter (\<lambda>u. lo \<le> age u \<and> age u \<le> hi) (users s)))"
  using assms by (simp add: search_age_def operand_def User_find_def matches_age_range)

theorem search_age_inclusive_witness:
  "castNumber sample_lib ''20'' = Some (Num 20) \<and> castNumber sample_lib ''30'' = Some (Num 30)
   \<and> map age (users sample_store) = [30, 19, 31, 20]
   \<and> search_age sample_lib (Some ''20'') (Some ''30'') sample_store = (200, UserDocs [alice, bob])"
proof -
  have lo: "castNumber sample_lib ''20'' = Some (Num 20)" by code_simp
  have hi: "castNumber sample_lib ''30'' = Some (Num 30)" by code_simp
  have "filter (\<lambda>u. 20 \<le> age u \<and> age u \<le> 30) (users sample_store) = [alice, bob]"
    by (simp add: sample_defs)
  moreover have "map age (users sample_store) = [30, 19, 31, 20]"
    by (simp add: sample_defs)
  ultimately show ?thesis
    using search_age_inclusive[OF lo hi, of sample_store] lo hi by simp
qed

subsection \<open>The profile\<close>

text \<open>
  C7, as amended. When the path parameter is cast to an ObjectId, the profile answers
  404 if no stored user has it, and otherwise 200 with the stored user as it is:
  populating \<^verbatim>\<open>posts\<close> adds nothing. When the path parameter cannot be cast to an
  ObjectId, the lookup throws and the answer is 500.
\<close>

theorem profile_lookup:
  "(castObjectId L rid = None \<longrightarrow> profile L rid s = (500, Text ''Server error''))
   \<and> (\<forall>i. castObjectId L rid = Some i \<longrightarrow>
         (i \<notin> user_id ` set (users s) \<longrightarrow> profile L rid s = (404, Text ''User not found''))
       \<and> (\<forall>u. findUserById i s = Some u \<longrightarrow> profile L rid s = (200, UserDoc u)))"
  by (auto simp: profile_def server_error_def populate_def findUserById_None[symmetric])

theorem profile_lookup_witness:
  "castObjectId sample_lib ''5F0000000000000000000001'' = Some (user_id alice)
   \<and> profile sample_lib ''5F0000000000000000000001'' sample_store = (200, UserDoc alice)
   \<and> castObjectId sample_lib ''5f00000000000000000000ff'' = Some ''5f00000000000000000000ff''
   \<and> ''5f00000000000000000000ff'' \<notin> user_id ` set (users sample_store)
   \<and> profile sample_lib ''5f00000000000000000000ff'' sample_store = (404, Text ''User not found'')
   \<and> castObjectId sample_lib ''me'' = None
   \<and> profile sample_lib ''me'' sample_store = (500, Text ''Server error'')"
proof -
  have c1: "castObjectId sample_lib ''5F0000000000000000000001'' = Some (user_id alice)"
    by code_simp
  have f1: "findUserById (user_id alice) sample_store = Some alice"
    by code_simp
  have c2: "castObjectId sample_lib ''5f00000000000000000000ff'' = Some ''5f00000000000000000000ff''"
    by code_simp
  have n2: "''5f00000000000000000000ff'' \<notin> user_id ` set (users sample_store)"
    by (simp add: sample_defs)
  have c3: "castObjectId sample_lib ''me'' = None"
    by code_simp
  show ?thesis
    using profile_lookup[of sample_lib "''5F0000000000000000000001''" sample_store]
      profile_lookup[of sample_lib "''5f00000000000000000000ff''" sample_store]
      profile_lookup[of sample_lib "''me''" sample_store]
      c1 f1 c2 n2 c3
    by simp
qed

text \<open>
  C7 as stated fails for a path parameter that is not the text of an ObjectId: no
  user has that id, but the answer is 500, not 404.
\<close>

theorem profile_lookup_counterexample:
  "''me'' \<notin> user_id ` set (users sample_store)
   \<and> profile sample_lib ''me'' sample_store = (500, Text ''Server error'')"
  by code_simp

subsection \<open>Validation errors\<close>

text \<open>
  C8. The details that \<^verbatim>\<open>validate\<close> returns are the first of the violations, at most
  one. The violations of an object are those of the schema's keys, in the order of the
  schema, followed by the keys that the schema does not declare. A handler that
  validates a body with a violation answers 400 with the first violation alone and
  returns the store as it was.
\<close>

theorem first_violation_reported:
  "validate L schema body = take 1 (violations L schema body)
   \<and> violations L schema (JObj kvs)
       = concat (map (\<lambda>ks. validate_key False L ks (map_of kvs (key ks))) schema)
         @ map ObjectUnknown (filter (\<lambda>k. k \<notin> set (map key schema)) (map fst kvs))
   \<and> (violations L userValidationSchema body \<noteq> [] \<longrightarrow>
        signup L i body s = (s, 400, Message (hd (violations L userValidationSchema body)))
      \<and> put_user L rid body s = (s, 400, Message (hd (violations L userValidationSchema body))))
   \<and> (violations L postValidationSchema body \<noteq> [] \<longrightarrow>
        create_post L i now body s = (s, 400, Message (hd (violations L postValidationSchema body)))
      \<and> put_post L rid body s = (s, 400, Message (hd (violations L postValidationSchema body))))"
proof -
  have "validate L schema body = take 1 (violations L schema body)"
    by (rule validate_first)
  moreover have "violations L schema (JObj kvs)
       = concat (map (\<lambda>ks. validate_key False L ks (map_of kvs (key ks))) schema)
         @ map ObjectUnknown (filter (\<lambda>k. k \<notin> set (map key schema)) (map fst kvs))"
    by (rule violations_object)
  moreover have "violations L userValidationSchema body \<noteq> [] \<longrightarrow>
        signup L i body s = (s, 400, Message (hd (violations L userValidationSchema body)))
      \<and> put_user L rid body s = (s, 400, Message (hd (violations L userValidationSchema body)))"
    by (simp add: signup_def put_user_def validate_hd)
  moreover have "violations L postValidationSchema body \<noteq> [] \<longrightarrow>
        create_post L i now body s = (s, 400, Message (hd (violations L postValidationSchema body)))
      \<and> put_post L rid body s = (s, 400, Message (hd (violations L postValidationSchema body)))"
    by (simp add: create_post_def put_post_def validate_hd)
  ultimately show ?thesis by blast
qed

theorem first_violation_reported_witness:
  "violations sample_lib userValidationSchema bad_user_body
     = [StringBase ''userName'', StringEmail ''email'', AnyRequired ''password'',
        NumberInteger ''age'', NumberMin ''age'' 0, StringEmpty ''gender'',
        AnyRequired ''phone'', ObjectUnknown ''nickname'']
   \<and> validate sample_lib userValidationSchema bad_user_body = [StringBase ''userName'']
   \<and> signup sample_lib ''5f0000000000000000000005'' bad_user_body sample_store
       = (sample_store, 400, Message (StringBase ''userName''))
   \<and> put_user sample_lib ''5f0000000000000000000001'' bad_user_body sample_store
       = (sample_store, 400, Message (StringBase ''userName''))
   \<and> violations sample_lib postValidationSchema (JObj [(''title'', JStr []), (''date'', JNum 5)])
     = [StringEmpty ''title'', AnyRequired ''content'', AnyRequired ''userID'',
        ObjectUnknown ''date'']
   \<and> create_post sample_lib ''6a0000000000000000000002'' 2000
        (JObj [(''title'', JStr []), (''date'', JNum 5)]) sample_store
       = (sample_store, 400, Message (StringEmpty ''title''))
   \<and> put_post sample_lib ''6a0000000000000000000001''
        (JObj [(''title'', JStr []), (''date'', JNum 5)]) sample_store
       = (sample_store, 400, Message (StringEmpty ''title''))"
proof -
  have u: "violations sample_lib userValidationSchema bad_user_body
     = [StringBase ''userName'', StringEmail ''email'', AnyRequired ''password'',
        NumberInteger ''age'', NumberMin ''age'' 0, StringEmpty ''gender'',
        AnyRequired ''phone'', ObjectUnknown ''nickname'']"
    by code_simp
  have p: "violations sample_lib postValidationSchema
      (JObj [(''title'', JStr []), (''date'', JNum 5)])
     = [StringEmpty ''title'', AnyRequired ''content'', AnyRequired ''userID'',
        ObjectUnknown ''date'']"
    by code_simp
  show ?thesis
    using first_violation_reported[where L = sample_lib and schema = userValidationSchema
        and body = bad_user_body and i = "''5f0000000000000000000005''"
        and s = sample_store and rid = "''5f0000000000000000000001''"]
      first_violation_reported[where L = sample_lib and schema = postValidationSchema
        and body = "JObj [(''title'', JStr []), (''date'', JNum 5)]"
        and i = "''6a0000000000000000000002''" and s = sample_store
        and rid = "''6a0000000000000000000001''" and now = 2000]
      u p
    by simp
qed

lemma create_post_date:
  assumes "create_post L i now body s = (s', 200, PostDoc p)"
  shows "get_prop body ''date'' = None \<and> date p = now \<and> p \<in> set (posts s')"
proof -
  from assms have v: "validate L postValidationSchema body = []"
    by (cases "validate L postValidationSchema body") (simp_all add: create_post_def)
  then obtain kvs where b: "body = JObj kvs" by (rule valid_object)
  have d: "get_prop body ''date'' = None"
    using valid_no_unknown[OF v[unfolded b], of "''date''"]
    by (simp add: b postValidationSchema_def req_def)
  from assms v have n: "new_Post L i now body = Some p" and s': "s' = save_post p s"
    by (auto simp: create_post_def server_error_def split: option.splits)
  from n d have "date p = now"
    by (auto simp: new_Post_def date_path_def split: Option.bind_splits)
  with d s' show ?thesis by (simp add: save_post_def)
qed

text \<open>
  C10. A body with a key that the schema does not declare is answered with 400 and the
  first validation error by signup, by the update of a user, by the creation of a post
  and by the update of a post, and the store is returned as it was. A post that was
  created (answer 200) comes from a body without \<^verbatim>\<open>date\<close>, and its date is the time
  of creation.
\<close>

theorem unknown_key_rejected:
  "(k \<in> fst ` set kvs \<and> k \<notin> set (map key userValidationSchema) \<longrightarrow>
      signup L i (JObj kvs) s
        = (s, 400, Message (hd (validate L userValidationSchema (JObj kvs))))
    \<and> put_user L rid (JObj kvs) s
        = (s, 400, Message (hd (validate L userValidationSchema (JObj kvs)))))
   \<and> (k \<in> fst ` set kvs \<and> k \<notin> set (map key postValidationSchema) \<longrightarrow>
      create_post L i now (JObj kvs) s
        = (s, 400, Message (hd (validate L postValidationSchema (JObj kvs))))
    \<and> put_post L rid (JObj kvs) s
        = (s, 400, Message (hd (validate L postValidationSchema (JObj kvs)))))
   \<and> (create_post L i now body s = (s', 200, PostDoc p) \<longrightarrow>
        get_prop body ''date'' = None \<and> date p = now \<and> p \<in> set (posts s'))"
proof (intro conjI impI)
  assume a: "k \<in> fst ` set kvs \<and> k \<notin> set (map key userValidationSchema)"
  then have "violations L userValidationSchema (JObj kvs) \<noteq> []"
    using unknown_key_violation[of k kvs userValidationSchema L] by blast
  then have v: "validate L userValidationSchema (JObj kvs)
      = [hd (validate L userValidationSchema (JObj kvs))]"
    by (simp add: validate_hd)
  show "signup L i (JObj kvs) s
        = (s, 400, Message (hd (validate L userValidationSchema (JObj kvs))))"
    by (subst (1) signup_def, subst v) simp
  show "put_user L rid (JObj kvs) s
        = (s, 400, Message (hd (validate L userValidationSchema (JObj kvs))))"
    by (subst (1) put_user_def, subst v) simp
next
  assume a: "k \<in> fst ` set kvs \<and> k \<notin> set (map key postValidationSchema)"
  then have "violations L postValidationSchema (JObj kvs) \<noteq> []"
    using unknown_key_violation[of k kvs postValidationSchema L] by blast
  then have v: "validate L postValidationSchema (JObj kvs)
      = [hd (validate L postValidationSchema (JObj kvs))]"
    by (simp add: validate_hd)
  show "create_post L i now (JObj kvs) s
        = (s, 400, Message (hd (validate L postValidationSchema (JObj kvs))))"
    by (subst (1) create_post_def, subst v) simp
  show "put_post L rid (JObj kvs) s
        = (s, 400, Message (hd (validate L postValidationSchema (JObj kvs))))"
    by (subst (1) put_post_def, subst v) simp
next
  assume "create_post L i now body s = (s', 200, PostDoc p)"
  then show "get_prop body ''date'' = None" "date p = now" "p \<in> set (posts s')"
    using create_post_date by blast+
qed

theorem unknown_key_rejected_witness:
  "create_post sample_lib ''6a0000000000000000000002'' 2000
      (JObj [(''title'', JStr ''Hi''), (''content'', JStr ''Text''),
             (''userID'', JStr (user_id bob)), (''date'', JNum 5)]) sample_store
     = (sample_store, 400, Message (ObjectUnknown ''date''))
   \<and> put_post sample_lib ''6a0000000000000000000001''
      (JObj [(''title'', JStr ''Hi''), (''content'', JStr ''Text''),
             (''userID'', JStr (user_id bob)), (''date'', JNum 5)]) sample_store
     = (sample_store, 400, Message (ObjectUnknown ''date''))
   \<and> signup sample_lib ''5f0000000000000000000005''
      (JObj [(''title'', JStr ''Hi''), (''content'', JStr ''Text''),
             (''userID'', JStr (user_id bob)), (''date'', JNum 5)]) sample_store
     = (sample_store, 400, Message (AnyRequired ''userName''))
   \<and> put_user sample_lib ''5f0000000000000000000001''
      (JObj [(''title'', JStr ''Hi''), (''content'', JStr ''Text''),
             (''userID'', JStr (user_id bob)), (''date'', JNum 5)]) sample_store
     = (sample_store, 400, Message (AnyRequired ''userName''))
   \<and> create_post sample_lib ''6a0000000000000000000002'' 2000 (post_body ''Hi'' (user_id bob))
        sample_store
     = (sample_store\<lparr>posts := [first_post,
           \<lparr>post_id = ''6a0000000000000000000002'', title = ''Hi'', content = ''Edited'',
              userID = user_id bob, date = 2000\<rparr>]\<rparr>,
        200,
        PostDoc \<lparr>post_id = ''6a0000000000000000000002'', title = ''Hi'', content = ''Edited'',
              userID = user_id bob, date = 2000\<rparr>)"
proof -
  let ?b = "[(''title'', JStr ''Hi''), (''content'', JStr ''Text''),
             (''userID'', JStr (user_id bob)), (''date'', JNum 5)]"
  have k: "''date'' \<in> fst ` set ?b" by simp
  have ku: "''date'' \<notin> set (map key userValidationSchema)"
    by (simp add: userValidationSchema_def req_def)
  have kp: "''date'' \<notin> set (map key postValidationSchema)"
    by (simp add: postValidationSchema_def req_def)
  have vu: "validate sample_lib userValidationSchema (JObj ?b) = [AnyRequired ''userName'']"
    by code_simp
  have vp: "validate sample_lib postValidationSchema (JObj ?b) = [ObjectUnknown ''date'']"
    by code_simp
  have c: "create_post sample_lib ''6a0000000000000000000002'' 2000
        (post_body ''Hi'' (user_id bob)) sample_store
     = (sample_store\<lparr>posts := [first_post,
           \<lparr>post_id = ''6a0000000000000000000002'', title = ''Hi'', content = ''Edited'',
              userID = user_id bob, date = 2000\<rparr>]\<rparr>,
        200,
        PostDoc \<lparr>post_id = ''6a0000000000000000000002'', title = ''Hi'', content = ''Edited'',
              userID = user_id bob, date = 2000\<rparr>)"
    by code_simp
  show ?thesis
    using unknown_key_rejected[of "''date''" ?b sample_lib "''5f0000000000000000000005''"
        sample_store "''5f0000000000000000000001''" 2000]
      unknown_key_rejected[of "''date''" ?b sample_lib "''6a0000000000000000000002''"
        sample_store "''6a0000000000000000000001''" 2000]
      k ku kp vu vp c
    by simp
qed

end
